theory Spec2Isabelle
  imports Main
begin

section \<open>The cross-reference driver script\<close>

text \<open>
  The repository is one script, \<^verbatim>\<open>database/scripts/generate_cross_references.py\<close>.
  Its function \<^verbatim>\<open>main\<close> computes two paths, checks that the first exists, and hands
  both to a generator class that lives outside the script. The script is modelled with
  explicit state passing: the state holds the outside world (files, console and what the
  console can encode) and the list of the calls the driver has made so far, in order.
\<close>

subsection \<open>The outside world\<close>

text \<open>
  Strings are byte strings (UTF-8). A filesystem maps an absolute path to the entry found
  there, a symbolic link being an entry of its own that holds its target. The console is
  the text written to standard output so far; \<open>encodable\<close> says which strings, beyond
  plain ASCII, the encoding of standard output can encode.
\<close>

datatype node =
    RegularFile string
  | Directory
  | Symlink string
  | Fifo
  | Socket
  | CharDevice
  | BlockDevice

record world =
  files :: "string \<rightharpoonup> node"
  console :: string
  encodable :: "string \<Rightarrow> bool"

text \<open>
  What the process was started with. \<open>home\<close> is the home directory of the user as
  \<^verbatim>\<open>os.path.expanduser\<close> finds it (the variable HOME, else the password database),
  \<open>None\<close> when there is none. \<open>script_file\<close> is \<^verbatim>\<open>__file__\<close>. \<open>cwd\<close> is the
  working directory, against which the operating system resolves a relative path.
  \<open>argv\<close> is the command line.
\<close>

record environment =
  home :: "string option"
  script_file :: string
  cwd :: string
  argv :: "string list"

text \<open>
  Python exceptions. \<^verbatim>\<open>SystemExit\<close> is what \<^verbatim>\<open>sys.exit\<close> raises; it carries the exit
  status. A call either returns or raises.
\<close>

datatype exn = SystemExit nat | Exception string

datatype outcome = Returned | Raised exn

text \<open>
  The generator class \<^verbatim>\<open>CrossReferencesGeneratorPSQL\<close> is imported from a module that
  is not part of the script, so it is a parameter of the model: a constructor taking the
  two paths and a method \<^verbatim>\<open>generate\<close> taking the object only. Either may change the
  world in any way, and either may raise; what it did to the world before raising stays
  done.
\<close>

record 'o delegate =
  d_init :: "string \<Rightarrow> string \<Rightarrow> world \<Rightarrow> (exn + 'o) \<times> world"
  d_generate :: "'o \<Rightarrow> world \<Rightarrow> (exn + unit) \<times> world"

text \<open>
  The calls the driver makes, recorded in the order in which it makes them. A call of
  \<^verbatim>\<open>generate\<close> is recorded with the object it is called on.
\<close>

datatype 'o action =
    Exists string
  | Print string
  | Construct string string
  | Generate 'o

record 'o driver_state =
  world :: world
  trace :: "'o action list"

subsection \<open>Library functions the script calls (posixpath)\<close>

definition sep :: char where
  "sep = CHR ''/''"

definition newline :: char where
  "newline = CHR 0x0A"

definition rstrip :: "char \<Rightarrow> string \<Rightarrow> string" where
  "rstrip c p = rev (dropWhile (\<lambda>x. x = c) (rev p))"

text \<open>
  \<^verbatim>\<open>os.path.expanduser\<close>: a path that does not start with a tilde is returned as it is;
  \<^verbatim>\<open>~\<close> and \<^verbatim>\<open>~/rest\<close> have the tilde replaced by the home directory, stripped of its
  trailing slashes (and the result is \<^verbatim>\<open>/\<close> when that leaves nothing); with no home
  directory the path is returned as it is. A prefix \<^verbatim>\<open>~name\<close> is looked up in the
  password database, which the model leaves empty: the path is returned as it is, which is
  what Python does for an unknown user.
\<close>

definition expanduser :: "string option \<Rightarrow> string \<Rightarrow> string" where
  "expanduser userhome path =
     (if take 1 path \<noteq> ''~'' then path
      else
        let i = 1 + length (takeWhile (\<lambda>c. c \<noteq> sep) (drop 1 path)) in
        if i = 1 then
          (case userhome of
             None \<Rightarrow> path
           | Some h \<Rightarrow>
               (let r = rstrip sep h @ drop i path in if r = [] then [sep] else r))
        else path)"

text \<open>
  \<^verbatim>\<open>os.path.dirname\<close>: everything up to and including the last slash, then stripped of
  trailing slashes unless it consists of slashes only.
\<close>

definition dirname :: "string \<Rightarrow> string" where
  "dirname p =
     (let head = rev (dropWhile (\<lambda>c. c \<noteq> sep) (rev p)) in
      if head \<noteq> [] \<and> \<not> list_all (\<lambda>c. c = sep) head then rstrip sep head else head)"

text \<open>\<^verbatim>\<open>os.path.join\<close> with two arguments.\<close>

definition join :: "string \<Rightarrow> string \<Rightarrow> string" where
  "join a b =
     (if take 1 b = [sep] then b
      else if a = [] \<or> last a = sep then a @ b
      else a @ [sep] @ b)"

text \<open>
  \<^verbatim>\<open>os.stat\<close> on an absolute path: the entry found there, symbolic links followed. A
  relative target of a link is taken from the directory of the link. After
  \<open>MAXSYMLINKS\<close> links the system gives up, and a link whose target is missing leads
  nowhere: both are failures of \<^verbatim>\<open>os.stat\<close>.
\<close>

definition MAXSYMLINKS :: nat where
  "MAXSYMLINKS = 40"

fun stat :: "nat \<Rightarrow> (string \<rightharpoonup> node) \<Rightarrow> string \<Rightarrow> node option" where
  "stat 0 fs p = None"
| "stat (Suc n) fs p =
     (case fs p of
        None \<Rightarrow> None
      | Some (Symlink target) \<Rightarrow> stat n fs (join (dirname p) target)
      | Some entry \<Rightarrow> Some entry)"

definition os_stat :: "world \<Rightarrow> string \<Rightarrow> string \<Rightarrow> node option" where
  "os_stat w wd p = stat (Suc MAXSYMLINKS) (files w) (join wd p)"

text \<open>
  \<^verbatim>\<open>os.path.exists\<close> is true when \<^verbatim>\<open>os.stat\<close> succeeds on the path, a relative path
  being resolved against the working directory \<open>wd\<close>. It reads the filesystem and
  changes nothing.
\<close>

definition os_path_exists ::
  "string \<Rightarrow> string \<Rightarrow> 'o driver_state \<Rightarrow> bool \<times> 'o driver_state" where
  "os_path_exists wd p s =
     (os_stat (world s) wd p \<noteq> None, s\<lparr>trace := trace s @ [Exists p]\<rparr>)"

text \<open>
  \<^verbatim>\<open>print\<close> encodes its argument for standard output and writes it, then a newline.
  Plain ASCII can always be encoded; any other string only if the encoding of standard
  output has it, and if not \<^verbatim>\<open>print\<close> raises \<^verbatim>\<open>UnicodeEncodeError\<close> and writes nothing.
\<close>

definition is_ascii :: "char \<Rightarrow> bool" where
  "is_ascii c = (of_char c < (128::nat))"

definition stdout_can_encode :: "world \<Rightarrow> string \<Rightarrow> bool" where
  "stdout_can_encode w m = (list_all is_ascii m \<or> encodable w m)"

definition UnicodeEncodeError :: exn where
  "UnicodeEncodeError = Exception ''UnicodeEncodeError''"

definition print :: "string \<Rightarrow> 'o driver_state \<Rightarrow> (exn + unit) \<times> 'o driver_state" where
  "print m s =
     (if stdout_can_encode (world s) m then
        (Inr (),
         s\<lparr>world := (world s)\<lparr>console := console (world s) @ m @ [newline]\<rparr>,
           trace := trace s @ [Print m]\<rparr>)
      else (Inl UnicodeEncodeError, s\<lparr>trace := trace s @ [Print m]\<rparr>))"

text \<open>Calling the constructor and the method of the generator class.\<close>

definition CrossReferencesGeneratorPSQL ::
  "'o delegate \<Rightarrow> string \<Rightarrow> string \<Rightarrow> 'o driver_state \<Rightarrow> (exn + 'o) \<times> 'o driver_state" where
  "CrossReferencesGeneratorPSQL d a b s =
     (case d_init d a b (world s) of
        (r, w) \<Rightarrow> (r, s\<lparr>world := w, trace := trace s @ [Construct a b]\<rparr>))"

definition generate ::
  "'o delegate \<Rightarrow> 'o \<Rightarrow> 'o driver_state \<Rightarrow> (exn + unit) \<times> 'o driver_state" where
  "generate d g s =
     (case d_generate d g (world s) of
        (r, w) \<Rightarrow> (r, s\<lparr>world := w, trace := trace s @ [Generate g]\<rparr>))"

subsection \<open>The script\<close>

definition source_directory :: "environment \<Rightarrow> string" where
  "source_directory e = expanduser (home e) ''~/Downloads/bible_databases/sources''"

definition format_directory :: "environment \<Rightarrow> string" where
  "format_directory e = join (dirname (script_file e)) ''output''"

definition error_line1 :: string where
  "error_line1 = ''ERROR: Please download the bible_databases repo first:''"

definition error_line2 :: string where
  "error_line2 =
     ''cd ~/Downloads && git clone https://github.com/scrollmapper/bible_databases.git''"

text \<open>
  The two confirmation lines. The first starts with a newline and a check mark (U+2705),
  the second with a folder sign (U+1F4C1); the second is the f-string
  \<^verbatim>\<open>Location: {format_directory}/psql/extras/\<close>.
\<close>

definition success_line1 :: string where
  "success_line1 =
     [newline, CHR 0xE2, CHR 0x9C, CHR 0x85] @ '' Cross-reference SQL file generated!''"

definition success_line2 :: "string \<Rightarrow> string" where
  "success_line2 fmt =
     [CHR 0xF0, CHR 0x9F, CHR 0x93, CHR 0x81] @ '' Location: '' @ fmt @ ''/psql/extras/''"

definition main ::
  "'o delegate \<Rightarrow> environment \<Rightarrow> 'o driver_state \<Rightarrow> outcome \<times> 'o driver_state" where
  "main d e s0 =
     (let src = source_directory e;
          fmt = format_directory e;
          (found, s1) = os_path_exists (cwd e) src s0
      in
        if \<not> found then
          (case print error_line1 s1 of
             (Inl x, s2) \<Rightarrow> (Raised x, s2)
           | (Inr u, s2) \<Rightarrow>
               (case print error_line2 s2 of
                  (Inl x, s3) \<Rightarrow> (Raised x, s3)
                | (Inr u, s3) \<Rightarrow> (Returned, s3)))
        else
          (case CrossReferencesGeneratorPSQL d src fmt s1 of
             (Inl x, s2) \<Rightarrow> (Raised x, s2)
           | (Inr cross_references_generator, s2) \<Rightarrow>
               (case generate d cross_references_generator s2 of
                  (Inl x, s3) \<Rightarrow> (Raised x, s3)
                | (Inr u, s3) \<Rightarrow>
                    (case print success_line1 s3 of
                       (Inl x, s4) \<Rightarrow> (Raised x, s4)
                     | (Inr u, s4) \<Rightarrow>
                         (case print (success_line2 fmt) s4 of
                            (Inl x, s5) \<Rightarrow> (Raised x, s5)
                          | (Inr u, s5) \<Rightarrow> (Returned, s5))))))"

text \<open>
  The last two lines of the script call \<^verbatim>\<open>main\<close>. The interpreter ends with status 0
  when it returns, with the status of a \<^verbatim>\<open>SystemExit\<close> (of which the system keeps the
  low eight bits), and with status 1 on any other exception that nothing caught.
\<close>

definition exit_status :: "outcome \<Rightarrow> nat" where
  "exit_status r =
     (case r of
        Returned \<Rightarrow> 0
      | Raised (SystemExit n) \<Rightarrow> n mod 256
      | Raised (Exception m) \<Rightarrow> 1)"

subsection \<open>Observations of one run\<close>

text \<open>
  Whether \<^verbatim>\<open>main\<close>, run in environment \<open>e\<close> and state \<open>s\<close>, finds its source
  directory: the answer of its call of \<^verbatim>\<open>os.path.exists\<close>.
\<close>

definition source_found :: "environment \<Rightarrow> 'o driver_state \<Rightarrow> bool" where
  "source_found e s = fst (os_path_exists (cwd e) (source_directory e) s)"

text \<open>The calls made by one run of \<^verbatim>\<open>main\<close>: what it added to the trace.\<close>

definition driver_actions ::
  "'o delegate \<Rightarrow> environment \<Rightarrow> 'o driver_state \<Rightarrow> 'o action list" where
  "driver_actions d e s = drop (length (trace s)) (trace (snd (main d e s)))"

definition final_world :: "'o delegate \<Rightarrow> environment \<Rightarrow> 'o driver_state \<Rightarrow> world" where
  "final_world d e s = world (snd (main d e s))"

fun is_construct :: "'o action \<Rightarrow> bool" where
  "is_construct (Construct a b) = True"
| "is_construct x = False"

fun is_generate :: "'o action \<Rightarrow> bool" where
  "is_generate (Generate g) = True"
| "is_generate x = False"

fun is_print :: "'o action \<Rightarrow> bool" where
  "is_print (Print m) = True"
| "is_print x = False"

text \<open>
  What the generator class alone does when it is constructed on the two paths in world
  \<open>w\<close> and, if that returns an object, asked to generate: the exception it raises, if
  any, and the world it leaves.
\<close>

definition delegate_run ::
  "'o delegate \<Rightarrow> string \<Rightarrow> string \<Rightarrow> world \<Rightarrow> exn option \<times> world" where
  "delegate_run d a b w =
     (case d_init d a b w of
        (Inl x, w1) \<Rightarrow> (Some x, w1)
      | (Inr g, w1) \<Rightarrow>
          (case d_generate d g w1 of
             (Inl x, w2) \<Rightarrow> (Some x, w2)
           | (Inr u, w2) \<Rightarrow> (None, w2)))"

subsection \<open>Examples used to run the model\<close>

definition example_env :: environment where
  "example_env =
     \<lparr>home = Some ''/home/u'',
      script_file = ''/repo/database/scripts/generate_cross_references.py'',
      cwd = ''/tmp'',
      argv = [''generate_cross_references.py'']\<rparr>"

definition example_src :: string where
  "example_src = ''/home/u/Downloads/bible_databases/sources''"

definition example_fmt :: string where
  "example_fmt = ''/repo/database/scripts/output''"

definition utf8_console :: "string \<Rightarrow> bool" where
  "utf8_console m = True"

definition ascii_console :: "string \<Rightarrow> bool" where
  "ascii_console m = False"

definition empty_state :: "(string \<times> string) driver_state" where
  "empty_state =
     \<lparr>world = \<lparr>files = Map.empty, console = [], encodable = utf8_console\<rparr>, trace = []\<rparr>"

definition dir_state :: "(string \<times> string) driver_state" where
  "dir_state =
     \<lparr>world = \<lparr>files = [example_src \<mapsto> Directory], console = [],
        encodable = utf8_console\<rparr>,
      trace = []\<rparr>"

definition file_state :: "(string \<times> string) driver_state" where
  "file_state =
     \<lparr>world = \<lparr>files = [example_src \<mapsto> RegularFile ''x''], console = [],
        encodable = utf8_console\<rparr>,
      trace = []\<rparr>"

text \<open>
  A dangling symbolic link in place of the source directory; a console that encodes ASCII
  only; a console that can encode the first confirmation line and nothing else beyond
  ASCII.
\<close>

definition link_state :: "(string \<times> string) driver_state" where
  "link_state =
     \<lparr>world = \<lparr>files = [example_src \<mapsto> Symlink ''/nowhere''], console = [],
        encodable = utf8_console\<rparr>,
      trace = []\<rparr>"

definition ascii_state :: "(string \<times> string) driver_state" where
  "ascii_state =
     \<lparr>world = \<lparr>files = [example_src \<mapsto> Directory], console = [],
        encodable = ascii_console\<rparr>,
      trace = []\<rparr>"

definition first_line_state :: "(string \<times> string) driver_state" where
  "first_line_state =
     \<lparr>world = \<lparr>files = [example_src \<mapsto> Directory], console = [],
        encodable = (\<lambda>m. m = success_line1)\<rparr>,
      trace = []\<rparr>"



text \<open>
  A generator that keeps the two paths and writes one file when asked to generate; one
  whose constructor makes the output directory and then raises; one whose
  \<^verbatim>\<open>generate\<close> raises.
\<close>

definition good_delegate :: "(string \<times> string) delegate" where
  "good_delegate =
     \<lparr>d_init = (\<lambda>a b w. (Inr (a, b), w)),
      d_generate = (\<lambda>g w.
        (Inr (), w\<lparr>files := (files w)(snd g @ ''/psql/extras/cross_references.sql''
                     \<mapsto> RegularFile ''INSERT'')\<rparr>))\<rparr>"

definition failing_init_delegate :: "(string \<times> string) delegate" where
  "failing_init_delegate =
     \<lparr>d_init = (\<lambda>a b w.
        (Inl (Exception ''ValueError''), w\<lparr>files := (files w)(b \<mapsto> Directory)\<rparr>)),
      d_generate = (\<lambda>g w. (Inr (), w))\<rparr>"

definition failing_generate_delegate :: "(string \<times> string) delegate" where
  "failing_generate_delegate =
     \<lparr>d_init = (\<lambda>a b w. (Inr (a, b), w)),
      d_generate = (\<lambda>g w. (Inl (Exception ''OSError''), w))\<rparr>"

section \<open>Properties\<close>

subsection \<open>Helper facts\<close>

lemma example_source_directory: "source_directory example_env = example_src"
  by (simp add: source_directory_def example_env_def example_src_def expanduser_def
      rstrip_def sep_def)

lemma example_format_directory: "format_directory example_env = example_fmt"
  by (simp add: format_directory_def example_env_def example_fmt_def join_def dirname_def
      rstrip_def sep_def)

lemma can_encode_console [simp]:
  "stdout_can_encode (w\<lparr>console := c\<rparr>) m = stdout_can_encode w m"
  by (simp add: stdout_can_encode_def)

lemma error_lines_ascii:
  "stdout_can_encode w error_line1" "stdout_can_encode w error_line2"
  by (simp_all add: stdout_can_encode_def error_line1_def error_line2_def is_ascii_def)

lemma main_unfold:
  "main d e s =
    (let s1 = s\<lparr>trace := trace s @ [Exists (source_directory e)]\<rparr> in
     if \<not> source_found e s then
       (case print error_line1 s1 of
          (Inl x, s2) \<Rightarrow> (Raised x, s2)
        | (Inr u, s2) \<Rightarrow>
            (case print error_line2 s2 of
               (Inl x, s3) \<Rightarrow> (Raised x, s3)
             | (Inr u, s3) \<Rightarrow> (Returned, s3)))
     else
       (case CrossReferencesGeneratorPSQL d (source_directory e) (format_directory e) s1 of
          (Inl x, s2) \<Rightarrow> (Raised x, s2)
        | (Inr g, s2) \<Rightarrow>
            (case generate d g s2 of
               (Inl x, s3) \<Rightarrow> (Raised x, s3)
             | (Inr u, s3) \<Rightarrow>
                 (case print success_line1 s3 of
                    (Inl x, s4) \<Rightarrow> (Raised x, s4)
                  | (Inr u, s4) \<Rightarrow>
                      (case print (success_line2 (format_directory e)) s4 of
                         (Inl x, s5) \<Rightarrow> (Raised x, s5)
                       | (Inr u, s5) \<Rightarrow> (Returned, s5))))))"
  by (simp add: main_def Let_def source_found_def os_path_exists_def)

lemma main_absent:
  assumes "\<not> source_found e s"
  shows "main d e s =
    (Returned,
     s\<lparr>world := (world s)\<lparr>console :=
          console (world s) @ error_line1 @ [newline] @ error_line2 @ [newline]\<rparr>,
       trace := trace s @ [Exists (source_directory e), Print error_line1, Print error_line2]\<rparr>)"
  using assms
  by (simp add: main_unfold Let_def print_def error_lines_ascii)

lemma main_init_raises:
  assumes "source_found e s"
    and "d_init d (source_directory e) (format_directory e) (world s) = (Inl x, w1)"
  shows "main d e s =
    (Raised x,
     s\<lparr>world := w1,
       trace := trace s @ [Exists (source_directory e),
         Construct (source_directory e) (format_directory e)]\<rparr>)"
  using assms
  by (simp add: main_unfold Let_def CrossReferencesGeneratorPSQL_def)

lemma main_generate_raises:
  assumes "source_found e s"
    and "d_init d (source_directory e) (format_directory e) (world s) = (Inr g, w1)"
    and "d_generate d g w1 = (Inl x, w2)"
  shows "main d e s =
    (Raised x,
     s\<lparr>world := w2,
       trace := trace s @ [Exists (source_directory e),
         Construct (source_directory e) (format_directory e), Generate g]\<rparr>)"
  using assms
  by (simp add: main_unfold Let_def CrossReferencesGeneratorPSQL_def generate_def)

lemma main_generated:
  assumes "source_found e s"
    and "d_init d (source_directory e) (format_directory e) (world s) = (Inr g, w1)"
    and "d_generate d g w1 = (Inr u, w2)"
  shows "main d e s =
    (if stdout_can_encode w2 success_line1 then
       if stdout_can_encode w2 (success_line2 (format_directory e)) then
         (Returned,
          s\<lparr>world := w2\<lparr>console := console w2 @ success_line1 @ [newline]
                @ success_line2 (format_directory e) @ [newline]\<rparr>,
            trace := trace s @ [Exists (source_directory e),
              Construct (source_directory e) (format_directory e), Generate g,
              Print success_line1, Print (success_line2 (format_directory e))]\<rparr>)
       else
         (Raised UnicodeEncodeError,
          s\<lparr>world := w2\<lparr>console := console w2 @ success_line1 @ [newline]\<rparr>,
            trace := trace s @ [Exists (source_directory e),
              Construct (source_directory e) (format_directory e), Generate g,
              Print success_line1, Print (success_line2 (format_directory e))]\<rparr>)
     else
       (Raised UnicodeEncodeError,
        s\<lparr>world := w2,
          trace := trace s @ [Exists (source_directory e),
            Construct (source_directory e) (format_directory e), Generate g,
            Print success_line1]\<rparr>))"
  using assms
  by (simp add: main_unfold Let_def CrossReferencesGeneratorPSQL_def generate_def
      print_def)

lemma actions_absent:
  assumes "\<not> source_found e s"
  shows "driver_actions d e s =
    [Exists (source_directory e), Print error_line1, Print error_line2]"
  by (simp add: driver_actions_def main_absent [OF assms])

lemma actions_present:
  assumes "source_found e s"
  shows "driver_actions d e s =
    Exists (source_directory e) # Construct (source_directory e) (format_directory e) #
    (case d_init d (source_directory e) (format_directory e) (world s) of
       (Inl x, w1) \<Rightarrow> []
     | (Inr g, w1) \<Rightarrow>
         Generate g #
         (case d_generate d g w1 of
            (Inl x, w2) \<Rightarrow> []
          | (Inr u, w2) \<Rightarrow>
              Print success_line1 #
              (if stdout_can_encode w2 success_line1
               then [Print (success_line2 (format_directory e))] else [])))"
proof (cases "d_init d (source_directory e) (format_directory e) (world s)")
  case (Pair r w1)
  show ?thesis
  proof (cases r)
    case (Inl x)
    with Pair show ?thesis
      by (simp add: driver_actions_def main_init_raises [OF assms])
  next
    case (Inr g)
    note i = Pair [unfolded Inr]
    show ?thesis
    proof (cases "d_generate d g w1")
      case (Pair r2 w2)
      show ?thesis
      proof (cases r2)
        case (Inl x)
        with Pair i show ?thesis
          by (simp add: driver_actions_def main_generate_raises [OF assms])
      next
        case (Inr u)
        with Pair i show ?thesis
          by (simp add: driver_actions_def main_generated [OF assms])
      qed
    qed
  qed
qed

lemma files_present:
  assumes "source_found e s"
  shows "files (final_world d e s) =
    files (snd (delegate_run d (source_directory e) (format_directory e) (world s)))"
proof (cases "d_init d (source_directory e) (format_directory e) (world s)")
  case (Pair r w1)
  show ?thesis
  proof (cases r)
    case (Inl x)
    with Pair show ?thesis
      by (simp add: final_world_def delegate_run_def main_init_raises [OF assms])
  next
    case (Inr g)
    note i = Pair [unfolded Inr]
    show ?thesis
    proof (cases "d_generate d g w1")
      case (Pair r2 w2)
      show ?thesis
      proof (cases r2)
        case (Inl x)
        with Pair i show ?thesis
          by (simp add: final_world_def delegate_run_def main_generate_raises [OF assms])
      next
        case (Inr u)
        with Pair i show ?thesis
          by (simp add: final_world_def delegate_run_def main_generated [OF assms])
      qed
    qed
  qed
qed





lemma example_src_absolute: "join wd example_src = example_src"
  by (simp add: join_def example_src_def sep_def)

lemma example_absent: "\<not> source_found example_env empty_state"
  by (simp add: source_found_def os_path_exists_def os_stat_def empty_state_def)

lemma example_dir: "source_found example_env dir_state"
  by (simp add: source_found_def os_path_exists_def os_stat_def example_source_directory
      example_src_absolute dir_state_def)

lemma example_file: "source_found example_env file_state"
  by (simp add: source_found_def os_path_exists_def os_stat_def example_source_directory
      example_src_absolute file_state_def)

lemma example_ascii: "source_found example_env ascii_state"
  by (simp add: source_found_def os_path_exists_def os_stat_def example_source_directory
      example_src_absolute ascii_state_def)

lemma example_first_line: "source_found example_env first_line_state"
  by (simp add: source_found_def os_path_exists_def os_stat_def example_source_directory
      example_src_absolute first_line_state_def)

lemma good_delegate_init: "d_init good_delegate a b w = (Inr (a, b), w)"
  by (simp add: good_delegate_def)

lemma good_delegate_generate:
  "d_generate good_delegate g w =
    (Inr (), w\<lparr>files := (files w)(snd g @ ''/psql/extras/cross_references.sql''
       \<mapsto> RegularFile ''INSERT'')\<rparr>)"
  by (simp add: good_delegate_def)

lemma failing_init_delegate_init:
  "d_init failing_init_delegate a b w =
    (Inl (Exception ''ValueError''), w\<lparr>files := (files w)(b \<mapsto> Directory)\<rparr>)"
  by (simp add: failing_init_delegate_def)

lemma failing_generate_delegate_init: "d_init failing_generate_delegate a b w = (Inr (a, b), w)"
  by (simp add: failing_generate_delegate_def)

lemma failing_generate_delegate_generate:
  "d_generate failing_generate_delegate g w = (Inl (Exception ''OSError''), w)"
  by (simp add: failing_generate_delegate_def)









lemma success_lines_not_error:
  "error_line1 \<noteq> success_line1" "error_line2 \<noteq> success_line1"
  "error_line1 \<noteq> success_line2 f" "error_line2 \<noteq> success_line2 f"
  by (simp_all add: success_line1_def success_line2_def error_line1_def error_line2_def
      newline_def)

lemma success_line1_not_ascii: "\<not> list_all is_ascii success_line1"
  by (simp add: success_line1_def is_ascii_def)

lemma success_line2_not_ascii: "\<not> list_all is_ascii (success_line2 f)"
  by (simp add: success_line2_def is_ascii_def)

lemma success_lines_differ: "success_line2 f \<noteq> success_line1"
  by (simp add: success_line1_def success_line2_def newline_def)

lemma outcome_present:
  assumes "source_found e s"
  shows "fst (main d e s) =
    (case delegate_run d (source_directory e) (format_directory e) (world s) of
       (Some x, w) \<Rightarrow> Raised x
     | (None, w) \<Rightarrow>
         if stdout_can_encode w success_line1
            \<and> stdout_can_encode w (success_line2 (format_directory e))
         then Returned else Raised UnicodeEncodeError)"
proof (cases "d_init d (source_directory e) (format_directory e) (world s)")
  case (Pair r w1)
  show ?thesis
  proof (cases r)
    case (Inl x)
    with Pair show ?thesis
      by (simp add: delegate_run_def main_init_raises [OF assms])
  next
    case (Inr g)
    note i = Pair [unfolded Inr]
    show ?thesis
    proof (cases "d_generate d g w1")
      case (Pair r2 w2)
      show ?thesis
      proof (cases r2)
        case (Inl x)
        with Pair i show ?thesis
          by (simp add: delegate_run_def main_generate_raises [OF assms])
      next
        case (Inr u)
        with Pair i show ?thesis
          by (simp add: delegate_run_def main_generated [OF assms])
      qed
    qed
  qed
qed





lemma stat_missing: "fs p = None \<Longrightarrow> stat k fs p = None"
  by (cases k) simp_all

subsection \<open>The source directory is missing\<close>

text \<open>
  Claim C1. When \<^verbatim>\<open>os.path.exists\<close> finds nothing at the source directory path,
  \<^verbatim>\<open>main\<close> returns, and the calls it made are the existence check and two prints, in
  that order, whatever the generator class is: the constructor is not called and neither
  is \<^verbatim>\<open>generate\<close>. The two lines printed are the remediation message: the first asks
  to download the bible_databases repository first, the second is the command that
  changes to the Downloads directory and clones the repository there. The world is as
  before but for these two lines on the console.
\<close>

theorem missing_source_prints_remediation:
  assumes "\<not> source_found e s"
  shows "fst (main d e s) = Returned
    \<and> driver_actions d e s =
        [Exists (source_directory e),
         Print ''ERROR: Please download the bible_databases repo first:'',
         Print ''cd ~/Downloads && git clone https://github.com/scrollmapper/bible_databases.git'']
    \<and> filter is_construct (driver_actions d e s) = []
    \<and> filter is_generate (driver_actions d e s) = []
    \<and> final_world d e s =
        (world s)\<lparr>console :=
          console (world s)
          @ ''ERROR: Please download the bible_databases repo first:'' @ [CHR 0x0A]
          @ ''cd ~/Downloads && git clone https://github.com/scrollmapper/bible_databases.git''
          @ [CHR 0x0A]\<rparr>"
  by (simp add: actions_absent [OF assms] main_absent [OF assms] final_world_def
      error_line1_def error_line2_def newline_def)

theorem missing_source_prints_remediation_witness:
  "\<not> source_found example_env empty_state
   \<and> fst (main good_delegate example_env empty_state) = Returned
   \<and> driver_actions good_delegate example_env empty_state =
       [Exists ''/home/u/Downloads/bible_databases/sources'',
        Print ''ERROR: Please download the bible_databases repo first:'',
        Print ''cd ~/Downloads && git clone https://github.com/scrollmapper/bible_databases.git'']
   \<and> console (final_world good_delegate example_env empty_state) =
       ''ERROR: Please download the bible_databases repo first:'' @ [CHR 0x0A]
       @ ''cd ~/Downloads && git clone https://github.com/scrollmapper/bible_databases.git''
       @ [CHR 0x0A]"
proof -
  note h = example_absent
  from missing_source_prints_remediation [OF h, of good_delegate]
  have "fst (main good_delegate example_env empty_state) = Returned
   \<and> driver_actions good_delegate example_env empty_state =
       [Exists ''/home/u/Downloads/bible_databases/sources'',
        Print ''ERROR: Please download the bible_databases repo first:'',
        Print ''cd ~/Downloads && git clone https://github.com/scrollmapper/bible_databases.git'']
   \<and> console (final_world good_delegate example_env empty_state) =
       ''ERROR: Please download the bible_databases repo first:'' @ [CHR 0x0A]
       @ ''cd ~/Downloads && git clone https://github.com/scrollmapper/bible_databases.git''
       @ [CHR 0x0A]"
    by (simp add: example_source_directory example_src_def empty_state_def)
  with h show ?thesis by blast
qed

subsection \<open>The source directory exists\<close>

text \<open>
  Claim C2, as stated, fails: when the constructor raises, \<^verbatim>\<open>generate\<close> is not called
  at all. The example is a run in which the source directory exists and the constructor of
  the generator class raises: no call of \<^verbatim>\<open>generate\<close> is made, so it is not made
  exactly once.
\<close>

theorem construct_and_generate_once_counterexample:
  "source_found example_env dir_state
   \<and> filter is_generate (driver_actions failing_init_delegate example_env dir_state) = []
   \<and> length (filter is_generate (driver_actions failing_init_delegate example_env dir_state))
       \<noteq> 1"
  by (simp add: example_dir actions_present [OF example_dir] failing_init_delegate_init)

text \<open>
  Claim C2, amended. When the source directory path exists, \<^verbatim>\<open>main\<close> calls the
  constructor exactly once, with the source directory first and the format directory
  second. If that call returns an object, \<^verbatim>\<open>main\<close> calls \<^verbatim>\<open>generate\<close> exactly once,
  on that object and with no argument; if the constructor raises, \<^verbatim>\<open>generate\<close> is not
  called.
\<close>

theorem construct_once_generate_once_if_constructed:
  assumes "source_found e s"
  shows "filter is_construct (driver_actions d e s) =
        [Construct (source_directory e) (format_directory e)]
    \<and> filter is_generate (driver_actions d e s) =
        (case fst (d_init d (source_directory e) (format_directory e) (world s)) of
           Inl x \<Rightarrow> []
         | Inr g \<Rightarrow> [Generate g])"
  by (simp add: actions_present [OF assms] split: prod.splits sum.splits)

theorem construct_once_generate_once_if_constructed_witness:
  "source_found example_env dir_state
   \<and> filter is_construct (driver_actions good_delegate example_env dir_state) =
       [Construct example_src example_fmt]
   \<and> filter is_generate (driver_actions good_delegate example_env dir_state) =
       [Generate (example_src, example_fmt)]"
proof -
  note h = example_dir
  from construct_once_generate_once_if_constructed [OF h, of good_delegate]
  have "filter is_construct (driver_actions good_delegate example_env dir_state) =
       [Construct example_src example_fmt]
   \<and> filter is_generate (driver_actions good_delegate example_env dir_state) =
       [Generate (example_src, example_fmt)]"
    by (simp add: example_source_directory example_format_directory good_delegate_init)
  with h show ?thesis by blast
qed

subsection \<open>Who writes files\<close>

text \<open>
  Claim C3, as stated, fails in its last part: a write need not come from the call of
  \<^verbatim>\<open>generate\<close>. In the example the constructor makes the output directory and then
  raises: the filesystem has changed although \<^verbatim>\<open>generate\<close> was never called.
\<close>

theorem writes_before_generate_counterexample:
  "source_found example_env dir_state
   \<and> filter is_generate (driver_actions failing_init_delegate example_env dir_state) = []
   \<and> files (world dir_state) example_fmt = None
   \<and> files (final_world failing_init_delegate example_env dir_state) example_fmt =
       Some Directory"
  by (simp add: example_dir actions_present [OF example_dir] files_present [OF example_dir]
      delegate_run_def failing_init_delegate_init example_format_directory)
    (simp add: dir_state_def example_src_def example_fmt_def)

text \<open>
  Claim C3, amended. The driver itself writes no file: the existence check and the prints
  leave the filesystem as it is; when the source directory is missing the filesystem after
  \<^verbatim>\<open>main\<close> is the one before it; and when it exists the filesystem after \<^verbatim>\<open>main\<close>
  is the one the generator class left, by its constructor and, where it was called, by
  \<^verbatim>\<open>generate\<close>.
\<close>

theorem driver_writes_no_files:
  "files (world (snd (os_path_exists wd p s))) = files (world s)
   \<and> files (world (snd (print m s))) = files (world s)
   \<and> (\<not> source_found e s \<longrightarrow> files (final_world d e s) = files (world s))
   \<and> (source_found e s \<longrightarrow>
        files (final_world d e s) =
        files (snd (delegate_run d (source_directory e) (format_directory e) (world s))))"
proof (intro conjI impI)
  show "files (world (snd (os_path_exists wd p s))) = files (world s)"
    by (simp add: os_path_exists_def)
  show "files (world (snd (print m s))) = files (world s)"
    by (simp add: print_def)
next
  assume "\<not> source_found e s"
  then show "files (final_world d e s) = files (world s)"
    by (simp add: final_world_def main_absent)
next
  assume "source_found e s"
  then show "files (final_world d e s) =
      files (snd (delegate_run d (source_directory e) (format_directory e) (world s)))"
    by (rule files_present)
qed

theorem driver_writes_no_files_witness:
  "source_found example_env dir_state
   \<and> \<not> source_found example_env empty_state
   \<and> files (final_world good_delegate example_env empty_state) = files (world empty_state)
   \<and> files (final_world good_delegate example_env dir_state) =
       files (snd (d_generate good_delegate (example_src, example_fmt) (world dir_state)))
   \<and> files (final_world good_delegate example_env dir_state)
         ''/repo/database/scripts/output/psql/extras/cross_references.sql'' =
       Some (RegularFile ''INSERT'')"
proof -
  note h = example_dir
  note a = example_absent
  from driver_writes_no_files [of "cwd example_env" "source_directory example_env" dir_state
      "[]" example_env good_delegate] h
  have "files (final_world good_delegate example_env dir_state) =
      files (snd (delegate_run good_delegate (source_directory example_env)
        (format_directory example_env) (world dir_state)))"
    by blast
  then have 1: "files (final_world good_delegate example_env dir_state) =
       files (snd (d_generate good_delegate (example_src, example_fmt) (world dir_state)))"
    by (simp add: example_source_directory example_format_directory delegate_run_def
        good_delegate_init good_delegate_generate)
  from driver_writes_no_files [of "cwd example_env" "source_directory example_env"
      empty_state "[]" example_env good_delegate] a
  have 2: "files (final_world good_delegate example_env empty_state) =
      files (world empty_state)"
    by blast
  have 3: "files (snd (d_generate good_delegate (example_src, example_fmt) (world dir_state)))
         ''/repo/database/scripts/output/psql/extras/cross_references.sql'' =
       Some (RegularFile ''INSERT'')"
    by (simp add: good_delegate_generate example_fmt_def)
  from h a 1 2 3 show ?thesis by (simp only: simp_thms)
qed

subsection \<open>The failure path is a plain return\<close>

text \<open>
  Claim C4. When the source directory is missing, \<^verbatim>\<open>main\<close> prints the two lines of
  the message and returns: it raises no exception, in particular no \<^verbatim>\<open>SystemExit\<close>
  (which is what \<^verbatim>\<open>sys.exit\<close> raises), and the exit status of the process is 0.
\<close>

theorem missing_source_plain_return:
  assumes "\<not> source_found e s"
  shows "fst (main d e s) = Returned
    \<and> (\<forall>x. fst (main d e s) \<noteq> Raised x)
    \<and> (\<forall>c. fst (main d e s) \<noteq> Raised (SystemExit c))
    \<and> exit_status (fst (main d e s)) = 0
    \<and> filter is_print (driver_actions d e s) = [Print error_line1, Print error_line2]"
  by (simp add: main_absent [OF assms] actions_absent [OF assms] exit_status_def)

theorem missing_source_plain_return_witness:
  "\<not> source_found example_env empty_state
   \<and> fst (main failing_init_delegate example_env empty_state) = Returned
   \<and> exit_status (fst (main failing_init_delegate example_env empty_state)) = 0"
  using missing_source_plain_return [OF example_absent, of failing_init_delegate]
  by (simp add: example_absent exit_status_def)

subsection \<open>The two paths\<close>



subsection \<open>The confirmation message\<close>

text \<open>
  Claim C6, as stated, fails: after \<^verbatim>\<open>generate\<close> has returned, the confirmation need
  not be printed. In the example standard output encodes ASCII only: the generator class
  raises nothing, the first confirmation line (it starts with a check mark) cannot be
  encoded, \<^verbatim>\<open>main\<close> raises \<^verbatim>\<open>UnicodeEncodeError\<close> and the console stays empty.
\<close>

theorem confirmation_not_printed_counterexample:
  "source_found example_env ascii_state
   \<and> fst (delegate_run good_delegate (source_directory example_env)
       (format_directory example_env) (world ascii_state)) = None
   \<and> fst (main good_delegate example_env ascii_state) = Raised UnicodeEncodeError
   \<and> console (final_world good_delegate example_env ascii_state) = []"
proof -
  note h = example_ascii
  have i: "d_init good_delegate (source_directory example_env)
      (format_directory example_env) (world ascii_state) =
      (Inr (source_directory example_env, format_directory example_env), world ascii_state)"
    by (simp add: good_delegate_init)
  obtain w2 where g: "d_generate good_delegate
      (source_directory example_env, format_directory example_env) (world ascii_state) =
      (Inr (), w2)" and e: "encodable w2 = ascii_console" and c: "console w2 = []"
    by (simp add: good_delegate_generate ascii_state_def)
  from e have n: "\<not> stdout_can_encode w2 success_line1"
    by (simp add: stdout_can_encode_def success_line1_not_ascii ascii_console_def)
  have d: "fst (delegate_run good_delegate (source_directory example_env)
       (format_directory example_env) (world ascii_state)) = None"
    by (simp add: delegate_run_def i g)
  from n c have "fst (main good_delegate example_env ascii_state) = Raised UnicodeEncodeError
      \<and> console (final_world good_delegate example_env ascii_state) = []"
    by (simp add: final_world_def main_generated [OF h i g])
  with h d show ?thesis by blast
qed

text \<open>
  Claim C6, amended. After the constructor and \<^verbatim>\<open>generate\<close> have returned,
  \<^verbatim>\<open>main\<close> prints the two confirmation lines, provided standard output can encode
  them; the second one names the output subpath: it is a folder sign, the word Location,
  then the format directory followed by \<^verbatim>\<open>/psql/extras/\<close>. When standard output cannot
  encode the first line, \<^verbatim>\<open>main\<close> raises \<^verbatim>\<open>UnicodeEncodeError\<close> and prints neither;
  when it cannot encode the second, \<^verbatim>\<open>main\<close> raises after the first.
\<close>

theorem success_prints_location:
  assumes "source_found e s"
    and "d_init d (source_directory e) (format_directory e) (world s) = (Inr g, w1)"
    and "d_generate d g w1 = (Inr u, w2)"
  shows "(stdout_can_encode w2
            ([CHR 0x0A, CHR 0xE2, CHR 0x9C, CHR 0x85]
             @ '' Cross-reference SQL file generated!'')
          \<and> stdout_can_encode w2
            ([CHR 0xF0, CHR 0x9F, CHR 0x93, CHR 0x81] @ '' Location: ''
             @ format_directory e @ ''/psql/extras/'') \<longrightarrow>
        fst (main d e s) = Returned
        \<and> driver_actions d e s =
            [Exists (source_directory e),
             Construct (source_directory e) (format_directory e),
             Generate g,
             Print ([CHR 0x0A, CHR 0xE2, CHR 0x9C, CHR 0x85]
                    @ '' Cross-reference SQL file generated!''),
             Print ([CHR 0xF0, CHR 0x9F, CHR 0x93, CHR 0x81] @ '' Location: ''
                    @ format_directory e @ ''/psql/extras/'')]
        \<and> console (final_world d e s) =
            console w2
            @ [CHR 0x0A, CHR 0xE2, CHR 0x9C, CHR 0x85]
            @ '' Cross-reference SQL file generated!'' @ [CHR 0x0A]
            @ [CHR 0xF0, CHR 0x9F, CHR 0x93, CHR 0x81] @ '' Location: ''
            @ format_directory e @ ''/psql/extras/'' @ [CHR 0x0A])
    \<and> (\<not> stdout_can_encode w2
            ([CHR 0x0A, CHR 0xE2, CHR 0x9C, CHR 0x85]
             @ '' Cross-reference SQL file generated!'') \<longrightarrow>
        fst (main d e s) = Raised UnicodeEncodeError
        \<and> console (final_world d e s) = console w2)
    \<and> (stdout_can_encode w2
            ([CHR 0x0A, CHR 0xE2, CHR 0x9C, CHR 0x85]
             @ '' Cross-reference SQL file generated!'')
          \<and> \<not> stdout_can_encode w2
            ([CHR 0xF0, CHR 0x9F, CHR 0x93, CHR 0x81] @ '' Location: ''
             @ format_directory e @ ''/psql/extras/'') \<longrightarrow>
        fst (main d e s) = Raised UnicodeEncodeError
        \<and> console (final_world d e s) =
            console w2
            @ [CHR 0x0A, CHR 0xE2, CHR 0x9C, CHR 0x85]
            @ '' Cross-reference SQL file generated!'' @ [CHR 0x0A])"
proof -
  have 1: "[CHR 0x0A, CHR 0xE2, CHR 0x9C, CHR 0x85]
      @ '' Cross-reference SQL file generated!'' = success_line1"
    by (simp add: success_line1_def newline_def)
  have 2: "[CHR 0xF0, CHR 0x9F, CHR 0x93, CHR 0x81] @ '' Location: ''
      @ format_directory e @ ''/psql/extras/'' = success_line2 (format_directory e)"
    by (simp add: success_line2_def)
  have 3: "[CHR 0x0A] = [newline]"
    by (simp add: newline_def)
  show ?thesis
    unfolding 1 2
    by (simp add: main_generated [OF assms] driver_actions_def final_world_def
        success_line1_def success_line2_def newline_def)
qed

theorem success_prints_location_witness:
  "source_found example_env dir_state
   \<and> fst (main good_delegate example_env dir_state) = Returned
   \<and> last (driver_actions good_delegate example_env dir_state) =
       Print ([CHR 0xF0, CHR 0x9F, CHR 0x93, CHR 0x81]
              @ '' Location: /repo/database/scripts/output/psql/extras/'')
   \<and> console (final_world good_delegate example_env dir_state) =
       [CHR 0x0A, CHR 0xE2, CHR 0x9C, CHR 0x85]
       @ '' Cross-reference SQL file generated!'' @ [CHR 0x0A]
       @ [CHR 0xF0, CHR 0x9F, CHR 0x93, CHR 0x81]
       @ '' Location: /repo/database/scripts/output/psql/extras/'' @ [CHR 0x0A]"
proof -
  note h = example_dir
  have i: "d_init good_delegate (source_directory example_env)
      (format_directory example_env) (world dir_state) =
      (Inr (example_src, example_fmt), world dir_state)"
    by (simp add: good_delegate_init example_source_directory example_format_directory)
  have g: "d_generate good_delegate (example_src, example_fmt) (world dir_state) =
      (Inr (), (world dir_state)\<lparr>files := (files (world dir_state))
         (example_fmt @ ''/psql/extras/cross_references.sql'' \<mapsto> RegularFile ''INSERT'')\<rparr>)"
    by (simp add: good_delegate_generate)
  have c: "console (world dir_state) = []"
    by (simp add: dir_state_def)
  have u: "\<And>m. stdout_can_encode ((world dir_state)\<lparr>files := (files (world dir_state))
         (example_fmt @ ''/psql/extras/cross_references.sql'' \<mapsto> RegularFile ''INSERT'')\<rparr>) m"
    by (simp add: stdout_can_encode_def dir_state_def utf8_console_def)
  from success_prints_location [OF h i g] u c
  have "fst (main good_delegate example_env dir_state) = Returned
   \<and> last (driver_actions good_delegate example_env dir_state) =
       Print ([CHR 0xF0, CHR 0x9F, CHR 0x93, CHR 0x81]
              @ '' Location: /repo/database/scripts/output/psql/extras/'')
   \<and> console (final_world good_delegate example_env dir_state) =
       [CHR 0x0A, CHR 0xE2, CHR 0x9C, CHR 0x85]
       @ '' Cross-reference SQL file generated!'' @ [CHR 0x0A]
       @ [CHR 0xF0, CHR 0x9F, CHR 0x93, CHR 0x81]
       @ '' Location: /repo/database/scripts/output/psql/extras/'' @ [CHR 0x0A]"
    by (simp add: example_format_directory example_fmt_def)
  with h show ?thesis by blast
qed

subsection \<open>Exceptions of the generator class\<close>

text \<open>
  Claim C7, as stated, fails in its last part: \<^verbatim>\<open>main\<close> can raise although the
  generator class did not. In the example the constructor and \<^verbatim>\<open>generate\<close> return,
  standard output cannot encode the second confirmation line, and \<^verbatim>\<open>main\<close> raises
  \<^verbatim>\<open>UnicodeEncodeError\<close>.
\<close>

theorem print_raises_without_delegate_counterexample:
  "source_found example_env first_line_state
   \<and> fst (delegate_run good_delegate (source_directory example_env)
       (format_directory example_env) (world first_line_state)) = None
   \<and> fst (main good_delegate example_env first_line_state) = Raised UnicodeEncodeError"
proof -
  note h = example_first_line
  have d: "delegate_run good_delegate (source_directory example_env)
       (format_directory example_env) (world first_line_state) =
       (None, (world first_line_state)\<lparr>files := (files (world first_line_state))
         (format_directory example_env @ ''/psql/extras/cross_references.sql''
            \<mapsto> RegularFile ''INSERT'')\<rparr>)"
    by (simp add: delegate_run_def good_delegate_init good_delegate_generate)
  have "\<not> stdout_can_encode ((world first_line_state)\<lparr>files := (files (world first_line_state))
         (format_directory example_env @ ''/psql/extras/cross_references.sql''
            \<mapsto> RegularFile ''INSERT'')\<rparr>) (success_line2 (format_directory example_env))"
    by (simp add: stdout_can_encode_def success_line2_not_ascii first_line_state_def
        success_lines_differ)
  with d have "fst (main good_delegate example_env first_line_state) =
      Raised UnicodeEncodeError"
    by (simp add: outcome_present [OF h])
  with h d show ?thesis by simp
qed

text \<open>
  Claim C7, amended. \<^verbatim>\<open>main\<close> has no handler. It raises \<open>x\<close> exactly when the source
  directory exists and either the generator class, constructed on the two paths and then
  asked to generate, raises \<open>x\<close>, or the generator class raises nothing, standard output
  cannot encode one of the two confirmation lines and \<open>x\<close> is
  \<^verbatim>\<open>UnicodeEncodeError\<close>. An exception of the constructor leaves \<^verbatim>\<open>main\<close> right after
  the constructor call, one of \<^verbatim>\<open>generate\<close> right after that call, in both cases with
  the same exception and with the world as the generator class left it.
\<close>

theorem delegate_exceptions_propagate:
  "(fst (main d e s) = Raised x) =
     (source_found e s
      \<and> (case delegate_run d (source_directory e) (format_directory e) (world s) of
           (Some y, w) \<Rightarrow> x = y
         | (None, w) \<Rightarrow>
             x = UnicodeEncodeError
             \<and> \<not> (stdout_can_encode w success_line1
                  \<and> stdout_can_encode w (success_line2 (format_directory e)))))
   \<and> (source_found e s
        \<and> d_init d (source_directory e) (format_directory e) (world s) = (Inl x, w1) \<longrightarrow>
      main d e s =
        (Raised x,
         s\<lparr>world := w1,
           trace := trace s @ [Exists (source_directory e),
             Construct (source_directory e) (format_directory e)]\<rparr>))
   \<and> (source_found e s
        \<and> d_init d (source_directory e) (format_directory e) (world s) = (Inr g, w1)
        \<and> d_generate d g w1 = (Inl x, w2) \<longrightarrow>
      main d e s =
        (Raised x,
         s\<lparr>world := w2,
           trace := trace s @ [Exists (source_directory e),
             Construct (source_directory e) (format_directory e), Generate g]\<rparr>))"
proof (intro conjI impI)
  show "(fst (main d e s) = Raised x) =
     (source_found e s
      \<and> (case delegate_run d (source_directory e) (format_directory e) (world s) of
           (Some y, w) \<Rightarrow> x = y
         | (None, w) \<Rightarrow>
             x = UnicodeEncodeError
             \<and> \<not> (stdout_can_encode w success_line1
                  \<and> stdout_can_encode w (success_line2 (format_directory e)))))"
  proof (cases "source_found e s")
    case False
    then show ?thesis by (simp add: main_absent)
  next
    case True
    then show ?thesis
      by (auto simp: outcome_present [OF True] split: prod.splits option.splits)
  qed
next
  assume "source_found e s
      \<and> d_init d (source_directory e) (format_directory e) (world s) = (Inl x, w1)"
  then show "main d e s =
        (Raised x,
         s\<lparr>world := w1,
           trace := trace s @ [Exists (source_directory e),
             Construct (source_directory e) (format_directory e)]\<rparr>)"
    by (simp add: main_init_raises)
next
  assume "source_found e s
      \<and> d_init d (source_directory e) (format_directory e) (world s) = (Inr g, w1)
      \<and> d_generate d g w1 = (Inl x, w2)"
  then show "main d e s =
        (Raised x,
         s\<lparr>world := w2,
           trace := trace s @ [Exists (source_directory e),
             Construct (source_directory e) (format_directory e), Generate g]\<rparr>)"
    by (simp add: main_generate_raises)
qed

theorem delegate_exceptions_propagate_witness:
  "source_found example_env dir_state
   \<and> fst (main failing_init_delegate example_env dir_state) = Raised (Exception ''ValueError'')
   \<and> fst (main failing_generate_delegate example_env dir_state) = Raised (Exception ''OSError'')
   \<and> fst (main good_delegate example_env dir_state) \<noteq> Raised (Exception ''OSError'')"
proof -
  note h = example_dir
  have 1: "fst (main failing_init_delegate example_env dir_state) =
      Raised (Exception ''ValueError'')"
    using delegate_exceptions_propagate [of failing_init_delegate example_env dir_state
        "Exception ''ValueError''"] h
    by (simp add: delegate_run_def failing_init_delegate_init)
  have 2: "fst (main failing_generate_delegate example_env dir_state) =
      Raised (Exception ''OSError'')"
    using delegate_exceptions_propagate [of failing_generate_delegate example_env dir_state
        "Exception ''OSError''"] h
    by (simp add: delegate_run_def failing_generate_delegate_init
        failing_generate_delegate_generate)
  have 3: "fst (main good_delegate example_env dir_state) \<noteq> Raised (Exception ''OSError'')"
    using delegate_exceptions_propagate [of good_delegate example_env dir_state
        "Exception ''OSError''"] h
    by (simp add: delegate_run_def good_delegate_init good_delegate_generate
        UnicodeEncodeError_def)
  from h 1 2 3 show ?thesis by (simp only: simp_thms)
qed

subsection \<open>The command line\<close>




subsection \<open>A file in place of the source directory\<close>

text \<open>
  Claim C9, as stated, fails: not every entry that is not a directory passes the check.
  In the example the entry at the source directory path is a symbolic link whose target
  is missing: \<^verbatim>\<open>os.path.exists\<close> follows the link and answers no, and \<^verbatim>\<open>main\<close> takes
  the error branch: it prints the error message and calls neither the constructor nor
  \<^verbatim>\<open>generate\<close>.
\<close>

theorem dangling_link_counterexample:
  "files (world link_state) (join (cwd example_env) (source_directory example_env)) =
     Some (Symlink ''/nowhere'')
   \<and> driver_actions good_delegate example_env link_state =
       [Exists ''/home/u/Downloads/bible_databases/sources'',
        Print ''ERROR: Please download the bible_databases repo first:'',
        Print ''cd ~/Downloads && git clone https://github.com/scrollmapper/bible_databases.git'']
   \<and> filter is_construct (driver_actions good_delegate example_env link_state) = []
   \<and> filter is_generate (driver_actions good_delegate example_env link_state) = []"
proof -
  have f: "files (world link_state) (join (cwd example_env) (source_directory example_env)) =
     Some (Symlink ''/nowhere'')"
    by (simp add: example_source_directory example_src_absolute link_state_def)
  have j: "join (dirname example_src) ''/nowhere'' = ''/nowhere''"
    by (simp add: join_def sep_def)
  have "files (world link_state) ''/nowhere'' = None"
    by (simp add: link_state_def example_src_def)
  then have "stat MAXSYMLINKS (files (world link_state)) ''/nowhere'' = None"
    by (rule stat_missing)
  then have "stat (Suc MAXSYMLINKS) (files (world link_state)) example_src = None"
    by (simp add: link_state_def j)
  then have n: "\<not> source_found example_env link_state"
    by (simp add: source_found_def os_path_exists_def os_stat_def example_source_directory
        example_src_absolute)
  from f show ?thesis
    by (simp add: actions_absent [OF n] example_source_directory example_src_def
        error_line1_def error_line2_def)
qed

text \<open>
  Claim C9, amended. The check is for existence only. When the source directory path,
  symbolic links followed, leads to an entry that is not a directory (a regular file, for
  one), \<^verbatim>\<open>main\<close> prints neither line of the error message; it calls the constructor
  on the two paths and, if that returns an object, \<^verbatim>\<open>generate\<close> on it, as in the
  success case.
\<close>

theorem non_directory_passes_check:
  assumes "os_stat (world s) (cwd e) (source_directory e) = Some n" and "n \<noteq> Directory"
  shows "Print error_line1 \<notin> set (driver_actions d e s)
    \<and> Print error_line2 \<notin> set (driver_actions d e s)
    \<and> take 2 (driver_actions d e s) =
        [Exists (source_directory e), Construct (source_directory e) (format_directory e)]
    \<and> filter is_construct (driver_actions d e s) =
        [Construct (source_directory e) (format_directory e)]
    \<and> filter is_generate (driver_actions d e s) =
        (case fst (d_init d (source_directory e) (format_directory e) (world s)) of
           Inl x \<Rightarrow> []
         | Inr g \<Rightarrow> [Generate g])"
proof -
  from assms(1) have h: "source_found e s"
    by (simp add: source_found_def os_path_exists_def)
  show ?thesis
    by (simp add: actions_present [OF h] success_lines_not_error
        split: prod.splits sum.splits)
qed

theorem non_directory_passes_check_witness:
  "os_stat (world file_state) (cwd example_env) (source_directory example_env) =
     Some (RegularFile ''x'')
   \<and> RegularFile ''x'' \<noteq> Directory
   \<and> take 2 (driver_actions good_delegate example_env file_state) =
       [Exists example_src, Construct example_src example_fmt]
   \<and> filter is_generate (driver_actions good_delegate example_env file_state) =
       [Generate (example_src, example_fmt)]
   \<and> Print error_line1 \<notin> set (driver_actions good_delegate example_env file_state)"
proof -
  have h: "os_stat (world file_state) (cwd example_env) (source_directory example_env) =
     Some (RegularFile ''x'')"
    by (simp add: os_stat_def example_source_directory example_src_absolute file_state_def)
  have k: "RegularFile ''x'' \<noteq> Directory"
    by simp
  from non_directory_passes_check [OF h k, of good_delegate]
  have "take 2 (driver_actions good_delegate example_env file_state) =
       [Exists example_src, Construct example_src example_fmt]
   \<and> filter is_generate (driver_actions good_delegate example_env file_state) =
       [Generate (example_src, example_fmt)]
   \<and> Print error_line1 \<notin> set (driver_actions good_delegate example_env file_state)"
    by (simp add: example_source_directory example_format_directory good_delegate_init)
  with h k show ?thesis by blast
qed

subsection \<open>Order of the effects\<close>



end
